theory Spec2Isabelle
  imports Complex_Main "HOL-Library.Sublist"
begin

section \<open>TPXO tidal constituent lookup (adcircpy/forcing/tides/tpxo.py)\<close>

text \<open>
  A shallow embedding of class \<open>TPXO\<close>. Python floats are idealised as \<open>real\<close>
  (rounding is not modelled); the one float effect the code can meet on its own, the NaN
  that \<open>np.mean\<close> gives on an empty array, is modelled as \<open>None\<close>. numpy arrays are
  lists: a 2-D array is the list of its rows, a 3-D array the list of its 2-D layers.
  Every exception is a value of type \<open>error\<close>, named after the Python class and the
  place that raises it.
\<close>

subsection \<open>Exceptions\<close>

datatype error =
    FileNotFoundError string  \<comment> \<open>raised by \<open>TPXO.__init__\<close>, with its message\<close>
  | OSError string            \<comment> \<open>\<open>netCDF4.Dataset(path)\<close>: the file cannot be opened\<close>
  | ValueError_index string   \<comment> \<open>\<open>list.index(v)\<close>: \<open>v\<close> is not in the list\<close>
  | ValueError_reduction      \<comment> \<open>\<open>np.min\<close>, \<open>np.max\<close> of a zero-size array\<close>
  | ValueError_broadcast      \<comment> \<open>\<open>np.broadcast_arrays\<close>: shape mismatch\<close>
  | IndexError_array          \<comment> \<open>numpy index out of bounds in this module's own indexing\<close>
  | IndexError_nearest        \<comment> \<open>raised inside scipy's \<open>NearestNDInterpolator.__call__\<close>\<close>

definition ebind :: "error + 'a \<Rightarrow> ('a \<Rightarrow> error + 'b) \<Rightarrow> error + 'b" where
  "ebind m f = (case m of Inl e \<Rightarrow> Inl e | Inr v \<Rightarrow> f v)"

subsection \<open>The dataset and the lookup object\<close>

record dataset =
  lon_z :: "real list list"
  lat_z :: "real list list"
  ha :: "real list list list"
  hp :: "real list list list"

record tpxo =
  path :: string
  dataset :: dataset

definition TPXO_ENVIRONMENT_VARIABLE :: string where
  "TPXO_ENVIRONMENT_VARIABLE = ''TPXO_NCFILE''"

definition TPXO_FILENAME :: string where
  "TPXO_FILENAME = ''h_tpxo9.v1.nc''"

definition CONSTITUENTS :: "string list" where
  "CONSTITUENTS = [''M2'', ''S2'', ''N2'', ''K2'', ''K1'', ''O1'', ''P1'', ''Q1'', ''Mm'', ''Mf'',
                   ''M4'', ''MN4'', ''MS4'', ''2N2'', ''S1'']"

subsection \<open>Construction\<close>

text \<open>
  What \<open>__init__\<close> reads from outside the module is a parameter: the process environment
  (\<open>os.getenv\<close>), the per-user data directory of \<open>appdirs\<close>, the files that
  \<open>netCDF4.Dataset\<close> can open, and the attribute \<open>self.path\<close> that the base class
  \<open>TidalDataset.__init__\<close> (not part of this module) leaves behind for a given
  file name.
\<close>

record world =
  getenv :: "string \<Rightarrow> string option"
  user_data_dir :: "string \<Rightarrow> string"
  base_path :: "string \<Rightarrow> string option"
  files :: "string \<Rightarrow> dataset option"

definition DEFAULT_PATH :: "world \<Rightarrow> string" where
  "DEFAULT_PATH w = user_data_dir w ''tpxo'' @ ''/'' @ TPXO_FILENAME"

definition py_str :: "string option \<Rightarrow> string" where
  \<comment> \<open>\<open>str\<close> of a value that is \<open>None\<close> or a path, as an f-string formats it\<close>
  "py_str v = (case v of None \<Rightarrow> ''None'' | Some s \<Rightarrow> s)"

definition join_lines :: "string list \<Rightarrow> string" where
  \<comment> \<open>\<open>'\n'.join(lines)\<close>\<close>
  "join_lines ls = (case ls of [] \<Rightarrow> [] | l # rest \<Rightarrow> l @ concat (map (\<lambda>s. CHR 0x0A # s) rest))"

definition not_found_message :: "string option \<Rightarrow> string" where
  "not_found_message p = join_lines [
     ''No TPXO file found at '' @ [CHR 0x22] @ py_str p @ [CHR 0x22] @ ''.'',
     ''New users will need to register and request a copy of ''
       @ ''the TPXO9 NetCDF file (specifically '' @ [CHR 0x60] @ TPXO_FILENAME @ [CHR 0x60] @ '') ''
       @ ''from the authors at https://www.tpxo.net.'',
     ''Once you obtain '' @ [CHR 0x60] @ ''h_tpxo9.v1.nc'' @ [CHR 0x60]
       @ '', you can follow one of the following options: '',
     ''1) copy or symlink the file to '' @ [CHR 0x22] @ py_str p @ [CHR 0x22],
     ''2) set the environment variable '' @ [CHR 0x60] @ TPXO_ENVIRONMENT_VARIABLE @ [CHR 0x60]
       @ '' to point to the file'']"

definition Dataset :: "world \<Rightarrow> string \<Rightarrow> error + dataset" where
  "Dataset w p = (case files w p of None \<Rightarrow> Inl (OSError p) | Some d \<Rightarrow> Inr d)"

definition TPXO_init :: "world \<Rightarrow> string option \<Rightarrow> error + tpxo" where
  "TPXO_init w tpxo_dataset_filename =
     (let filename =
        (case tpxo_dataset_filename of
           None \<Rightarrow> (case getenv w TPXO_ENVIRONMENT_VARIABLE of
                      Some v \<Rightarrow> v
                    | None \<Rightarrow> DEFAULT_PATH w)
         | Some f \<Rightarrow> f);
          self_path = base_path w filename
      in case self_path of
           Some p \<Rightarrow> ebind (Dataset w p) (\<lambda>d. Inr \<lparr>path = p, dataset = d\<rparr>)
         | None \<Rightarrow> Inl (FileNotFoundError (not_found_message self_path)))"

subsection \<open>numpy and scipy operations used by the lookup\<close>

fun np_diff :: "real list \<Rightarrow> real list" where
  "np_diff (a # b # rest) = (b - a) # np_diff (b # rest)"
| "np_diff _ = []"

definition np_mean :: "real list \<Rightarrow> real option" where
  \<comment> \<open>the mean of an empty array is NaN (\<open>None\<close>), with a warning and no exception\<close>
  "np_mean a = (if a = [] then None else Some (sum_list a / real (length a)))"

definition np_min :: "real list \<Rightarrow> error + real" where
  "np_min a = (case a of [] \<Rightarrow> Inl ValueError_reduction | v # rest \<Rightarrow> Inr (fold min rest v))"

definition np_max :: "real list \<Rightarrow> error + real" where
  "np_max a = (case a of [] \<Rightarrow> Inl ValueError_reduction | v # rest \<Rightarrow> Inr (fold max rest v))"

definition ge_minus :: "real \<Rightarrow> real \<Rightarrow> real option \<Rightarrow> bool" where
  \<comment> \<open>\<open>v >= lo - 2 * d\<close>; a comparison with NaN is False\<close>
  "ge_minus v lo d = (case d of None \<Rightarrow> False | Some s \<Rightarrow> v \<ge> lo - 2 * s)"

definition le_plus :: "real \<Rightarrow> real \<Rightarrow> real option \<Rightarrow> bool" where
  \<comment> \<open>\<open>v <= hi + 2 * d\<close>; a comparison with NaN is False\<close>
  "le_plus v hi d = (case d of None \<Rightarrow> False | Some s \<Rightarrow> v \<le> hi + 2 * s)"

definition np_where :: "bool list \<Rightarrow> nat list" where
  \<comment> \<open>the positions of the True entries, ascending\<close>
  "np_where msk = filter (\<lambda>i. msk ! i) [0..<length msk]"

definition take_idx :: "real list \<Rightarrow> nat list \<Rightarrow> error + real list" where
  \<comment> \<open>\<open>a[idx]\<close> with an integer index array: an index beyond the array raises\<close>
  "take_idx a idx =
     (if list_all (\<lambda>i. i < length a) idx then Inr (map (\<lambda>i. a ! i) idx)
      else Inl IndexError_array)"

definition meshgrid_ij_x :: "real list \<Rightarrow> real list \<Rightarrow> real list" where
  \<comment> \<open>first result of \<open>np.meshgrid(x, y, indexing='ij')\<close>, flattened in C order\<close>
  "meshgrid_ij_x xs ys = concat (map (\<lambda>a. replicate (length ys) a) xs)"

definition meshgrid_ij_y :: "real list \<Rightarrow> real list \<Rightarrow> real list" where
  \<comment> \<open>second result of \<open>np.meshgrid(x, y, indexing='ij')\<close>, flattened in C order\<close>
  "meshgrid_ij_y xs ys = concat (map (\<lambda>a. ys) xs)"

definition broadcast_arrays :: "real list \<Rightarrow> real list \<Rightarrow> error + (real list \<times> real list)" where
  \<comment> \<open>\<open>np.broadcast_arrays\<close> on two 1-D arrays: equal lengths, or one of length 1
      which is repeated\<close>
  "broadcast_arrays a b =
     (if length a = length b then Inr (a, b)
      else if length a = 1 then Inr (replicate (length b) (hd a), b)
      else if length b = 1 then Inr (a, replicate (length a) (hd b))
      else Inl ValueError_broadcast)"

definition sqdist :: "real \<times> real \<Rightarrow> real \<times> real \<Rightarrow> real" where
  "sqdist p q = (fst p - fst q)\<^sup>2 + (snd p - snd q)\<^sup>2"

fun nearest :: "real \<times> real \<Rightarrow> ((real \<times> real) \<times> real) \<Rightarrow> ((real \<times> real) \<times> real) list \<Rightarrow> real" where
  \<comment> \<open>the value of the candidate closest to \<open>q\<close>; of two at the same distance, the
      earlier one\<close>
  "nearest q best [] = snd best"
| "nearest q best (c # cs) =
     (if sqdist (fst c) q < sqdist (fst best) q then nearest q c cs else nearest q best cs)"

definition griddata_nearest ::
  "real list \<times> real list \<Rightarrow> real list \<Rightarrow> real list \<times> real list \<Rightarrow> error + real list" where
  \<comment> \<open>\<open>scipy.interpolate.griddata(points, values, xi, method='nearest')\<close> for 2-D
      points given as a pair of coordinate arrays of one length, with one value each.
      The query coordinate arrays are broadcast against each other when the
      interpolator is called; with no point to choose from, indexing the values fails
      inside the interpolator.\<close>
  "griddata_nearest points vals xi =
     ebind (broadcast_arrays (fst xi) (snd xi)) (\<lambda>(qx, qy).
       case zip (zip (fst points) (snd points)) vals of
         [] \<Rightarrow> (if qx = [] then Inr [] else Inl IndexError_nearest)
       | c # cs \<Rightarrow> Inr (map (\<lambda>q. nearest q c cs) (zip qx qy)))"

subsection \<open>The lookup\<close>

definition assert_vertices :: "(real \<times> real) list \<Rightarrow> error + unit" where
  \<comment> \<open>Modelled from the spec: \<open>TidalDataset._assert_vertices\<close> is not part of this
      module. It rejects a point structure that is not rectangular with 2 columns; a
      list of (longitude, latitude) pairs is such a structure, so it accepts every value
      of this type.\<close>
  "assert_vertices vertices = Inr ()"

definition tpxo_x :: "tpxo \<Rightarrow> error + real list" where
  \<comment> \<open>property \<open>x\<close>: \<open>self.dataset['lon_z'][:, 0].data\<close>\<close>
  "tpxo_x self =
     (if list_ex (\<lambda>row. row = []) (lon_z (dataset self)) then Inl IndexError_array
      else Inr (map hd (lon_z (dataset self))))"

definition tpxo_y :: "tpxo \<Rightarrow> error + real list" where
  \<comment> \<open>property \<open>y\<close>: \<open>self.dataset['lat_z'][0, :].data\<close>\<close>
  "tpxo_y self =
     (case lat_z (dataset self) of [] \<Rightarrow> Inl IndexError_array | row # _ \<Rightarrow> Inr row)"

definition tpxo_ha :: "tpxo \<Rightarrow> real list list list" where
  "tpxo_ha self = ha (dataset self)"

definition tpxo_hp :: "tpxo \<Rightarrow> real list list list" where
  "tpxo_hp self = hp (dataset self)"

fun index_of :: "string list \<Rightarrow> string \<Rightarrow> nat option" where
  \<comment> \<open>\<open>list.index\<close>: the position of the first occurrence\<close>
  "index_of [] v = None"
| "index_of (a # rest) v = (if a = v then Some 0 else map_option Suc (index_of rest v))"

definition constituent_index :: "string \<Rightarrow> error + nat" where
  \<comment> \<open>\<open>self.CONSTITUENTS.index(constituent)\<close>\<close>
  "constituent_index constituent =
     (case index_of CONSTITUENTS constituent of
        None \<Rightarrow> Inl (ValueError_index constituent)
      | Some i \<Rightarrow> Inr i)"

definition layer :: "real list list list \<Rightarrow> nat \<Rightarrow> error + real list" where
  \<comment> \<open>\<open>tpxo_array[constituent, :, :].flatten()\<close>\<close>
  "layer tpxo_array c =
     (if c < length tpxo_array then Inr (concat (tpxo_array ! c)) else Inl IndexError_array)"

definition shifted_x :: "(real \<times> real) list \<Rightarrow> real list" where
  \<comment> \<open>\<open>_x = np.asarray([x + 360. for x in vertices[:, 0] if x < 0]).flatten()\<close>\<close>
  "shifted_x vertices = map (\<lambda>x. x + 360) (filter (\<lambda>x. x < 0) (map fst vertices))"

definition bbox_mask ::
  "real list \<Rightarrow> real list \<Rightarrow> real option \<Rightarrow> real option \<Rightarrow> real list \<Rightarrow> real list
     \<Rightarrow> error + bool list" where
  \<comment> \<open>the argument of \<open>np.where\<close>, its four reductions evaluated left to right\<close>
  "bbox_mask gx gy dx dy qx qy =
     ebind (np_min qx) (\<lambda>x_lo.
     ebind (np_max qx) (\<lambda>x_hi.
     ebind (np_min qy) (\<lambda>y_lo.
     ebind (np_max qy) (\<lambda>y_hi.
       Inr (map (\<lambda>(u, v). (ge_minus u x_lo dx \<and> le_plus u x_hi dx)
                          \<and> (ge_minus v y_lo dy \<and> le_plus v y_hi dy))
                (zip gx gy))))))"

definition candidate_idx :: "tpxo \<Rightarrow> (real \<times> real) list \<Rightarrow> error + nat list" where
  \<comment> \<open>\<open>_idx\<close>: lines 96 to 116 of \<open>_get_interpolation\<close>\<close>
  "candidate_idx self vertices =
     (let qx = shifted_x vertices; qy = map snd vertices in
      ebind (tpxo_x self) (\<lambda>xs.
      ebind (tpxo_y self) (\<lambda>ys.
      ebind (bbox_mask (meshgrid_ij_x xs ys) (meshgrid_ij_y xs ys)
               (np_mean (np_diff xs)) (np_mean (np_diff ys)) qx qy) (\<lambda>msk.
        Inr (np_where msk)))))"

subsection \<open>Methods on the object\<close>

text \<open>
  A method runs on the object \<open>self\<close> and ends with an outcome (a value or an
  exception) and the object as it then is. A method body is a sequence of steps, each of
  one of three kinds: an expression over local values, an expression that reads
  \<open>self\<close>, and an assignment to an attribute of \<open>self\<close>. The module holds a single
  assignment, \<open>self.dataset = Dataset(self.path)\<close> on line 37 of \<open>__init__\<close>.
\<close>

type_synonym 'a routine = "tpxo \<Rightarrow> (error + 'a) \<times> tpxo"

definition compute :: "error + 'a \<Rightarrow> 'a routine" where
  \<comment> \<open>a step that evaluates an expression over local values\<close>
  "compute r self = (r, self)"

definition eval_self :: "(tpxo \<Rightarrow> error + 'a) \<Rightarrow> 'a routine" where
  \<comment> \<open>a step that evaluates an expression reading \<open>self\<close>, on the object as it is at
      that moment\<close>
  "eval_self e self = (e self, self)"

definition assign_dataset :: "dataset \<Rightarrow> unit routine" where
  \<comment> \<open>the assignment \<open>self.dataset = d\<close>\<close>
  "assign_dataset d self = (Inr (), self\<lparr>dataset := d\<rparr>)"

definition seq :: "'a routine \<Rightarrow> ('a \<Rightarrow> 'b routine) \<Rightarrow> 'b routine" where
  \<comment> \<open>one step, then the rest of the body on the object the step left; an exception
      ends the body\<close>
  "seq m f self =
     (case m self of
        (Inl e, self') \<Rightarrow> (Inl e, self')
      | (Inr v, self') \<Rightarrow> f v self')"

definition get_interpolation ::
  "real list list list \<Rightarrow> string \<Rightarrow> (real \<times> real) list \<Rightarrow> real list routine" where
  \<comment> \<open>\<open>_get_interpolation\<close>, lines 92 to 124; \<open>self.x\<close> and \<open>self.y\<close> are read on
      line 98 and again on lines 101 and 102 (inside \<open>candidate_idx\<close>)\<close>
  "get_interpolation tpxo_array constituent vertices =
     seq (compute (assert_vertices vertices)) (\<lambda>_.
     seq (compute (constituent_index constituent)) (\<lambda>c.
     seq (compute (layer tpxo_array c)) (\<lambda>array.
     seq (eval_self tpxo_x) (\<lambda>xs.
     seq (eval_self tpxo_y) (\<lambda>ys.
     seq (eval_self (\<lambda>self. candidate_idx self vertices)) (\<lambda>idx.
     seq (compute (take_idx (meshgrid_ij_x xs ys) idx)) (\<lambda>px.
     seq (compute (take_idx (meshgrid_ij_y xs ys) idx)) (\<lambda>py.
     seq (compute (take_idx array idx)) (\<lambda>vals.
       compute (griddata_nearest (px, py) vals
                  (shifted_x vertices, map snd vertices)))))))))))"

text \<open>
  The two public methods take the object and return it with the outcome. Each checks
  the points (line 56), reads the grid \<open>self.ha\<close> or \<open>self.hp\<close> from the dataset, and
  hands it to \<open>_get_interpolation\<close> (line 57).
\<close>

definition get_amplitude ::
  "tpxo \<Rightarrow> string \<Rightarrow> (real \<times> real) list \<Rightarrow> (error + real list) \<times> tpxo" where
  "get_amplitude self constituent vertices =
     seq (compute (assert_vertices vertices)) (\<lambda>_.
     seq (eval_self (\<lambda>self. Inr (tpxo_ha self))) (\<lambda>tpxo_array.
       get_interpolation tpxo_array constituent vertices)) self"

definition get_phase ::
  "tpxo \<Rightarrow> string \<Rightarrow> (real \<times> real) list \<Rightarrow> (error + real list) \<times> tpxo" where
  "get_phase self constituent vertices =
     seq (compute (assert_vertices vertices)) (\<lambda>_.
     seq (eval_self (\<lambda>self. Inr (tpxo_hp self))) (\<lambda>tpxo_array.
       get_interpolation tpxo_array constituent vertices)) self"

subsection \<open>A small atlas\<close>

text \<open>
  Four longitudes \<open>0, 90, 180, 270\<close> and two latitudes \<open>-10, 10\<close>, with one
  constituent layer (M2) in each grid. The spacings are \<open>dx = 90\<close> and \<open>dy = 20\<close>.
\<close>

definition atlas :: tpxo where
  "atlas = \<lparr>path = ''/data/h_tpxo9.v1.nc'', dataset =
     \<lparr>lon_z = [[0, 0], [90, 90], [180, 180], [270, 270]],
      lat_z = [[-10, 10], [-10, 10], [-10, 10], [-10, 10]],
      ha = [[[1, 2], [3, 4], [5, 6], [7, 8]]],
      hp = [[[21, 22], [23, 24], [25, 26], [27, 28]]]\<rparr>\<rparr>"


definition bare_world :: world where
  \<comment> \<open>a machine without the TPXO file: no environment variable, no file to open, and
      a base class that leaves \<open>self.path\<close> as \<open>None\<close>\<close>
  "bare_world = \<lparr>getenv = (\<lambda>name. None),
                  user_data_dir = (\<lambda>app. ''/home/user/.local/share/tpxo''),
                  base_path = (\<lambda>filename. None),
                  files = (\<lambda>p. None)\<rparr>"

subsection \<open>The candidate set as the specification words it\<close>

text \<open>
  The specification normalises every query longitude (a negative one is shifted by 360,
  any other is kept) and builds the padded box around all of them. The two definitions
  below follow those words; they differ from \<open>shifted_x\<close> and \<open>candidate_idx\<close> only in
  the list of query longitudes.
\<close>

definition spec_normalize :: "real \<Rightarrow> real" where
  "spec_normalize lon = (if lon < 0 then lon + 360 else lon)"

definition spec_candidate_idx :: "tpxo \<Rightarrow> (real \<times> real) list \<Rightarrow> error + nat list" where
  "spec_candidate_idx self vertices =
     (let qx = map spec_normalize (map fst vertices); qy = map snd vertices in
      ebind (tpxo_x self) (\<lambda>xs.
      ebind (tpxo_y self) (\<lambda>ys.
      ebind (bbox_mask (meshgrid_ij_x xs ys) (meshgrid_ij_y xs ys)
               (np_mean (np_diff xs)) (np_mean (np_diff ys)) qx qy) (\<lambda>msk.
        Inr (np_where msk)))))"


section \<open>Properties\<close>

subsection \<open>Error propagation\<close>

lemma ebind_Inr_iff: "ebind m f = Inr r \<longleftrightarrow> (\<exists>v. m = Inr v \<and> f v = Inr r)"
  by (cases m) (simp_all add: ebind_def)

lemma ebind_Inl [simp]: "ebind (Inl e) f = Inl e"
  by (simp add: ebind_def)

lemma ebind_Inr [simp]: "ebind (Inr v) f = f v"
  by (simp add: ebind_def)

subsection \<open>The outcome of a method and the object it leaves\<close>

lemma fst_compute [simp]: "fst (compute r self) = r"
  by (simp add: compute_def)

lemma fst_eval_self [simp]: "fst (eval_self e self) = e self"
  by (simp add: eval_self_def)

lemma fst_seq_compute: "fst (seq (compute r) f self) = ebind r (\<lambda>v. fst (f v self))"
  by (cases r) (simp_all add: seq_def compute_def)

lemma fst_seq_eval_self:
  "fst (seq (eval_self e) f self) = ebind (e self) (\<lambda>v. fst (f v self))"
  by (cases "e self") (simp_all add: seq_def eval_self_def)

lemma snd_compute: "snd (compute r self) = self"
  by (simp add: compute_def)

lemma snd_eval_self: "snd (eval_self e self) = self"
  by (simp add: eval_self_def)

lemma snd_seq:
  assumes step: "snd (m self) = self"
    and rest: "\<And>v. snd (f v self) = self"
  shows "snd (seq m f self) = self"
proof (cases "m self")
  case (Pair r self')
  with step have same: "self' = self" by simp
  show ?thesis
  proof (cases r)
    case (Inl e)
    with Pair same show ?thesis by (simp add: seq_def)
  next
    case (Inr v)
    with Pair same rest [of v] show ?thesis by (simp add: seq_def)
  qed
qed

lemma assign_dataset_writes:
  "d \<noteq> dataset self \<Longrightarrow> snd (assign_dataset d self) \<noteq> self"
proof
  assume ne: "d \<noteq> dataset self" and eq: "snd (assign_dataset d self) = self"
  from eq have "dataset (snd (assign_dataset d self)) = dataset self" by simp
  then have "d = dataset self" by (simp add: assign_dataset_def)
  with ne show False by simp
qed

lemma get_interpolation_value:
  "fst (get_interpolation tpxo_array constituent vertices self) =
     ebind (assert_vertices vertices) (\<lambda>_.
     ebind (constituent_index constituent) (\<lambda>c.
     ebind (layer tpxo_array c) (\<lambda>array.
     ebind (tpxo_x self) (\<lambda>xs.
     ebind (tpxo_y self) (\<lambda>ys.
     ebind (candidate_idx self vertices) (\<lambda>idx.
     ebind (take_idx (meshgrid_ij_x xs ys) idx) (\<lambda>px.
     ebind (take_idx (meshgrid_ij_y xs ys) idx) (\<lambda>py.
     ebind (take_idx array idx) (\<lambda>vals.
       griddata_nearest (px, py) vals (shifted_x vertices, map snd vertices))))))))))"
  by (simp add: get_interpolation_def fst_seq_compute fst_seq_eval_self)

lemma get_interpolation_frame:
  "snd (get_interpolation tpxo_array constituent vertices self) = self"
  unfolding get_interpolation_def
  by (intro snd_seq snd_compute snd_eval_self)

lemma get_amplitude_eq:
  "fst (get_amplitude self constituent vertices)
     = fst (get_interpolation (tpxo_ha self) constituent vertices self)"
  by (simp add: get_amplitude_def fst_seq_compute fst_seq_eval_self assert_vertices_def)

lemma get_phase_eq:
  "fst (get_phase self constituent vertices)
     = fst (get_interpolation (tpxo_hp self) constituent vertices self)"
  by (simp add: get_phase_def fst_seq_compute fst_seq_eval_self assert_vertices_def)

subsection \<open>Unknown constituents\<close>

lemma index_of_None_iff: "index_of cs v = None \<longleftrightarrow> v \<notin> set cs"
  by (induction cs) auto

lemma constituent_index_unknown:
  "constituent \<notin> set CONSTITUENTS \<Longrightarrow>
   constituent_index constituent = Inl (ValueError_index constituent)"
  using index_of_None_iff [of CONSTITUENTS constituent]
  by (simp add: constituent_index_def)

lemma get_interpolation_unknown:
  "constituent \<notin> set CONSTITUENTS \<Longrightarrow>
   fst (get_interpolation arr constituent vertices self) = Inl (ValueError_index constituent)"
  by (simp add: get_interpolation_value assert_vertices_def constituent_index_unknown)

text \<open>
  C3, as amended. The module makes no membership check of its own and defines no
  \<open>UnknownConstituentError\<close>. For a name that is not in the catalog of 15 names, a
  list of (longitude, latitude) pairs and a dataset that holds the grid variable, both
  \<open>get_amplitude\<close> and \<open>get_phase\<close> fail with the builtin \<open>ValueError\<close> that
  \<open>CONSTITUENTS.index\<close> raises on line 94 (the exception class that numpy also raises
  for an empty reduction and for a shape mismatch). The steps that run before line 94,
  the check of the points on lines 56 and 92 and the read of \<open>self.ha\<close> or \<open>self.hp\<close>
  on line 57, succeed on such arguments, so no other error comes first; no value is
  returned, whatever the points and the arrays of the dataset are.
\<close>

theorem unknown_constituent_fails:
  "constituent \<notin> set CONSTITUENTS \<Longrightarrow>
   fst (get_amplitude self constituent vertices) = Inl (ValueError_index constituent)
   \<and> fst (get_phase self constituent vertices) = Inl (ValueError_index constituent)"
  by (simp add: get_amplitude_eq get_phase_eq get_interpolation_unknown)

text \<open>
  C3 (counterexample). The call the specification names, \<open>get_amplitude("XX", points)\<close>,
  ends in the \<open>ValueError\<close> of \<open>list.index\<close>, a failure of the language's own list
  type that the module lets through.
\<close>

theorem unknown_constituent_raises_builtin_error:
  "fst (get_amplitude atlas ''XX'' [(-170, 9)]) = Inl (ValueError_index ''XX'')
   \<and> fst (get_phase atlas ''XX'' [(-170, 9)]) = Inl (ValueError_index ''XX'')"
  by code_simp

theorem unknown_constituent_fails_witness:
  "''m2'' \<notin> set CONSTITUENTS
   \<and> fst (get_amplitude atlas ''m2'' [(-170, 9), (10, -9)]) = Inl (ValueError_index ''m2'')
   \<and> fst (get_phase atlas ''m2'' [(-170, 9), (10, -9)]) = Inl (ValueError_index ''m2'')"
proof -
  have h: "''m2'' \<notin> set CONSTITUENTS" by (simp add: CONSTITUENTS_def)
  show ?thesis
    using h unknown_constituent_fails [OF h, of atlas "[(-170, 9), (10, -9)]"] by simp
qed

subsection \<open>Frame\<close>

text \<open>
  C9. A call of \<open>get_amplitude\<close> or \<open>get_phase\<close> leaves the lookup object as it found
  it, whether the call returns values or fails: every step of the two methods and of
  \<open>_get_interpolation\<close> is an expression over local values or a read of \<open>self\<close>
  (the properties \<open>x\<close>, \<open>y\<close>, \<open>ha\<close>, \<open>hp\<close>), none is an assignment, and each step hands
  the object unchanged to the next. The path, the dataset handle and the axis and grid
  arrays it holds are the same after the call as before. (The catalog is the class
  attribute \<open>CONSTITUENTS\<close>, which no statement of the module assigns; it is a constant
  here.)
\<close>

theorem lookup_leaves_object_unchanged:
  "snd (get_amplitude self constituent vertices) = self
   \<and> snd (get_phase self constituent vertices) = self"
proof
  show "snd (get_amplitude self constituent vertices) = self"
    unfolding get_amplitude_def
    by (intro snd_seq snd_compute snd_eval_self get_interpolation_frame)
  show "snd (get_phase self constituent vertices) = self"
    unfolding get_phase_def
    by (intro snd_seq snd_compute snd_eval_self get_interpolation_frame)
qed

subsection \<open>What the outcome of a lookup depends on\<close>





text \<open>
  The nearest-neighbour rule is a fixed function of the candidates and the query point:
  it returns the value of a candidate at the least distance.
\<close>

lemma nearest_least_distance:
  "\<exists>c \<in> set (best # cs). nearest q best cs = snd c
      \<and> (\<forall>d \<in> set (best # cs). sqdist (fst c) q \<le> sqdist (fst d) q)"
proof (induction cs arbitrary: best)
  case Nil
  then show ?case by simp
next
  case (Cons a cs)
  show ?case
  proof (cases "sqdist (fst a) q < sqdist (fst best) q")
    case True
    from Cons.IH [of a] obtain c where
      c: "c \<in> set (a # cs)" "nearest q a cs = snd c"
         "\<forall>d \<in> set (a # cs). sqdist (fst c) q \<le> sqdist (fst d) q"
      by blast
    from c(3) have "sqdist (fst c) q \<le> sqdist (fst a) q" by simp
    with True have "sqdist (fst c) q \<le> sqdist (fst best) q" by simp
    with c True show ?thesis by auto
  next
    case False
    from Cons.IH [of best] obtain c where
      c: "c \<in> set (best # cs)" "nearest q best cs = snd c"
         "\<forall>d \<in> set (best # cs). sqdist (fst c) q \<le> sqdist (fst d) q"
      by blast
    from c(3) have "sqdist (fst c) q \<le> sqdist (fst best) q" by simp
    with False have "sqdist (fst c) q \<le> sqdist (fst a) q" by simp
    with c False show ?thesis by auto
  qed
qed



subsection \<open>The filter on the query longitudes\<close>

text \<open>
  Line 96 builds \<open>_x\<close> with a list comprehension whose condition \<open>if x < 0\<close> drops every
  longitude that is not negative, where the specification keeps it unchanged. When all
  longitudes are negative the two agree.
\<close>

lemma shifted_x_all_negative:
  "list_all (\<lambda>p. fst p < 0) vertices \<Longrightarrow>
   shifted_x vertices = map spec_normalize (map fst vertices)"
  by (induction vertices) (simp_all add: shifted_x_def spec_normalize_def)

lemma candidate_idx_all_negative:
  "list_all (\<lambda>p. fst p < 0) vertices \<Longrightarrow>
   candidate_idx self vertices = spec_candidate_idx self vertices"
  by (simp add: candidate_idx_def spec_candidate_idx_def shifted_x_all_negative)

text \<open>
  C1 (failing input). With the known constituent M2 and the single well-formed point
  (10, 5), whose longitude is not negative, \<open>_x\<close> is empty and both methods fail in
  \<open>np.min\<close> instead of returning one value.
\<close>

theorem nonnegative_longitude_fails:
  "fst (get_amplitude atlas ''M2'' [(10, 5)]) = Inl ValueError_reduction
   \<and> fst (get_phase atlas ''M2'' [(10, 5)]) = Inl ValueError_reduction"
  by code_simp

text \<open>
  C2 (failing input). The points (-170, 9) and (190, 9) are the same place. The first
  is interpolated; the second, which should pass through unchanged, is dropped from
  \<open>_x\<close> and the call fails. The two calls do not give the same result.
\<close>

theorem same_place_different_outcome:
  "fst (get_amplitude atlas ''M2'' [(-170, 9)]) = Inr [6]
   \<and> fst (get_amplitude atlas ''M2'' [(190, 9)]) = Inl ValueError_reduction
   \<and> fst (get_phase atlas ''M2'' [(-170, 9)]) = Inr [26]
   \<and> fst (get_phase atlas ''M2'' [(190, 9)]) = Inl ValueError_reduction"
  by code_simp

text \<open>
  C6 (failing input). For the points (-170, 9) and (10, -9) the normalised longitudes
  are 190 and 10, so the box of the specification spans the longitudes from
  \<open>10 - 180\<close> to \<open>190 + 180\<close> and holds all eight grid points. The code takes the minimum
  and maximum over \<open>_x = [190]\<close> alone: its box starts at \<open>190 - 180\<close> and leaves out the
  two grid points at longitude 0.
\<close>

theorem candidate_box_ignores_nonnegative_longitudes:
  "candidate_idx atlas [(-170, 9), (10, -9)] = Inr [2, 3, 4, 5, 6, 7]
   \<and> spec_candidate_idx atlas [(-170, 9), (10, -9)] = Inr [0, 1, 2, 3, 4, 5, 6, 7]"
  by code_simp

subsection \<open>Construction without a dataset\<close>

lemma not_found_message_fixed:
  "TPXO_init w tpxo_dataset_filename = Inl (FileNotFoundError m) \<Longrightarrow>
   m = not_found_message None"
  by (auto simp: TPXO_init_def Let_def ebind_def Dataset_def split: option.splits sum.splits)

text \<open>
  C5 (failing input). \<open>TPXO('/srv/Q.nc')\<close> on a machine where the base class resolves
  no path fails at construction with \<open>FileNotFoundError\<close>, but the message is built from
  \<open>self.path\<close>, which is \<open>None\<close> on the only branch that raises: it reads
  \<open>No TPXO file found at "None".\<close> and does not contain the attempted path.
\<close>

theorem not_found_message_lacks_path:
  "TPXO_init bare_world (Some ''/srv/Q.nc'') = Inl (FileNotFoundError (not_found_message None))
   \<and> \<not> sublist ''/srv/Q.nc'' (not_found_message None)
   \<and> sublist (''No TPXO file found at '' @ [CHR 0x22] @ ''None'' @ [CHR 0x22]) (not_found_message None)"
  by code_simp

subsection \<open>Flattening of the grid\<close>

lemma concat_nth_uniform:
  "list_all (\<lambda>r. length r = m) rows \<Longrightarrow> i < length rows \<Longrightarrow> j < m \<Longrightarrow>
   concat rows ! (i * m + j) = rows ! i ! j"
proof (induction rows arbitrary: i)
  case Nil
  then show ?case by simp
next
  case (Cons r rows)
  show ?case
  proof (cases i)
    case 0
    with Cons.prems show ?thesis by (simp add: nth_append)
  next
    case (Suc k)
    with Cons.prems have "k < length rows" and len: "length r = m" and rest: "list_all (\<lambda>r. length r = m) rows"
      by simp_all
    have "concat (r # rows) ! (Suc k * m + j) = concat rows ! (k * m + j)"
      using len by (simp add: nth_append)
    also have "\<dots> = rows ! k ! j"
      using Cons.IH [OF rest \<open>k < length rows\<close> \<open>j < m\<close>] .
    finally show ?thesis using Suc by simp
  qed
qed

lemma length_concat_uniform:
  "list_all (\<lambda>r. length r = m) rows \<Longrightarrow> length (concat rows) = length rows * m"
  by (induction rows) simp_all

lemma meshgrid_ij_x_nth:
  "i < length xs \<Longrightarrow> j < length ys \<Longrightarrow> meshgrid_ij_x xs ys ! (i * length ys + j) = xs ! i"
proof -
  assume i: "i < length xs" and j: "j < length ys"
  have u: "list_all (\<lambda>r. length r = length ys) (map (\<lambda>a. replicate (length ys) a) xs)"
    by (simp add: list_all_iff)
  show ?thesis
    unfolding meshgrid_ij_x_def
    using concat_nth_uniform [OF u, of i j] i j by simp
qed

lemma meshgrid_ij_y_nth:
  "i < length xs \<Longrightarrow> j < length ys \<Longrightarrow> meshgrid_ij_y xs ys ! (i * length ys + j) = ys ! j"
proof -
  assume i: "i < length xs" and j: "j < length ys"
  have u: "list_all (\<lambda>r. length r = length ys) (map (\<lambda>a. ys) xs)"
    by (simp add: list_all_iff)
  show ?thesis
    unfolding meshgrid_ij_y_def
    using concat_nth_uniform [OF u, of i j] i j by simp
qed

lemma length_meshgrid_ij:
  "length (meshgrid_ij_x xs ys) = length xs * length ys"
  "length (meshgrid_ij_y xs ys) = length xs * length ys"
proof -
  have u: "list_all (\<lambda>r. length r = length ys) (map (\<lambda>a. replicate (length ys) a) xs)"
    by (simp add: list_all_iff)
  have v: "list_all (\<lambda>r. length r = length ys) (map (\<lambda>a. ys) xs)"
    by (simp add: list_all_iff)
  show "length (meshgrid_ij_x xs ys) = length xs * length ys"
    unfolding meshgrid_ij_x_def using length_concat_uniform [OF u] by simp
  show "length (meshgrid_ij_y xs ys) = length xs * length ys"
    unfolding meshgrid_ij_y_def using length_concat_uniform [OF v] by simp
qed

lemma layer_nth:
  assumes "layer tpxo_array c = Inr array"
    and "length (tpxo_array ! c) = l"
    and "list_all (\<lambda>row. length row = m) (tpxo_array ! c)"
    and "i < l" and "j < m"
  shows "array ! (i * m + j) = tpxo_array ! c ! i ! j" and "length array = l * m"
proof -
  from assms(1) have a: "array = concat (tpxo_array ! c)"
    by (simp add: layer_def split: if_splits)
  show "array ! (i * m + j) = tpxo_array ! c ! i ! j"
    unfolding a using concat_nth_uniform [OF assms(3), of i j] assms(2,4,5) by simp
  show "length array = l * m"
    unfolding a using length_concat_uniform [OF assms(3)] assms(2) by simp
qed

text \<open>
  C7. Let the longitude axis have length L and the latitude axis length M, and let the
  layer of the resolved constituent have shape (L, M). Then the three flattened arrays
  that \<open>_get_interpolation\<close> builds all have length \<open>L * M\<close>, and at position
  \<open>i * M + j\<close> they hold the longitude \<open>i\<close>, the latitude \<open>j\<close> and the grid value at
  \<open>(i, j)\<close>: longitude varies slowest, latitude fastest, and values and coordinates are
  aligned.
\<close>

theorem flattened_grid_aligned:
  assumes "tpxo_x self = Inr xs" and "tpxo_y self = Inr ys"
    and "constituent_index constituent = Inr c"
    and "layer tpxo_array c = Inr array"
    and "length (tpxo_array ! c) = length xs"
    and "list_all (\<lambda>row. length row = length ys) (tpxo_array ! c)"
    and "i < length xs" and "j < length ys"
  shows "meshgrid_ij_x xs ys ! (i * length ys + j) = xs ! i
       \<and> meshgrid_ij_y xs ys ! (i * length ys + j) = ys ! j
       \<and> array ! (i * length ys + j) = tpxo_array ! c ! i ! j
       \<and> length (meshgrid_ij_x xs ys) = length xs * length ys
       \<and> length (meshgrid_ij_y xs ys) = length xs * length ys
       \<and> length array = length xs * length ys"
  using meshgrid_ij_x_nth [OF assms(7,8)] meshgrid_ij_y_nth [OF assms(7,8)]
    layer_nth [OF assms(4,5,6,7,8)] length_meshgrid_ij [of xs ys]
  by simp

theorem flattened_grid_aligned_witness:
  "tpxo_x atlas = Inr [0, 90, 180, 270] \<and> tpxo_y atlas = Inr [-10, 10]
   \<and> constituent_index ''M2'' = Inr 0
   \<and> layer (tpxo_ha atlas) 0 = Inr [1, 2, 3, 4, 5, 6, 7, 8]
   \<and> length (tpxo_ha atlas ! 0) = length [0, 90, 180, 270 :: real]
   \<and> list_all (\<lambda>row. length row = length [-10, 10 :: real]) (tpxo_ha atlas ! 0)
   \<and> (2::nat) < length [0, 90, 180, 270 :: real] \<and> (1::nat) < length [-10, 10 :: real]
   \<and> meshgrid_ij_x [0, 90, 180, 270] [-10, 10] ! (2 * length [-10, 10 :: real] + 1) = 180
   \<and> meshgrid_ij_y [0, 90, 180, 270] [-10, 10] ! (2 * length [-10, 10 :: real] + 1) = 10
   \<and> [1, 2, 3, 4, 5, 6, 7, 8 :: real] ! (2 * length [-10, 10 :: real] + 1) = 6"
proof -
  have h1: "tpxo_x atlas = Inr [0, 90, 180, 270]" by code_simp
  have h2: "tpxo_y atlas = Inr [-10, 10]" by code_simp
  have h3: "constituent_index ''M2'' = Inr 0" by code_simp
  have h4: "layer (tpxo_ha atlas) 0 = Inr [1, 2, 3, 4, 5, 6, 7, 8]" by code_simp
  have h5: "length (tpxo_ha atlas ! 0) = length [0, 90, 180, 270 :: real]" by code_simp
  have h6: "list_all (\<lambda>row. length row = length [-10, 10 :: real]) (tpxo_ha atlas ! 0)" by code_simp
  have h7: "(2::nat) < length [0, 90, 180, 270 :: real]" by simp
  have h8: "(1::nat) < length [-10, 10 :: real]" by simp
  have v: "tpxo_ha atlas ! 0 ! 2 ! 1 = 6" by code_simp
  show ?thesis
    using flattened_grid_aligned [OF h1 h2 h3 h4 h5 h6 h7 h8] h1 h2 h3 h4 h5 h6 v by simp
qed

subsection \<open>When a lookup completes\<close>

lemma length_shifted_x:
  "length (shifted_x vertices) = length (filter (\<lambda>p. fst p < 0) vertices)"
  by (induction vertices) (simp_all add: shifted_x_def)

lemma length_shifted_x_le: "length (shifted_x vertices) \<le> length vertices"
  by (simp add: length_shifted_x)

lemma np_min_Inr_D: "np_min a = Inr v \<Longrightarrow> a \<noteq> []"
  by (cases a) (simp_all add: np_min_def)

lemma bbox_mask_Inr_D: "bbox_mask gx gy dx dy qx qy = Inr m \<Longrightarrow> qx \<noteq> []"
  by (auto simp: bbox_mask_def ebind_Inr_iff dest: np_min_Inr_D)

lemma candidate_idx_Inr_D:
  assumes "candidate_idx self vertices = Inr idx"
  shows "shifted_x vertices \<noteq> []"
    and "\<exists>xs ys. tpxo_x self = Inr xs \<and> tpxo_y self = Inr ys"
  using assms
  by (auto simp: candidate_idx_def Let_def ebind_Inr_iff dest: bbox_mask_Inr_D)










subsection \<open>An empty candidate set\<close>

lemma take_idx_Nil [simp]: "take_idx a [] = Inr []"
  by (simp add: take_idx_def)

lemma get_interpolation_empty_candidates:
  assumes c: "constituent_index constituent = Inr c"
    and l: "c < length tpxo_array"
    and idx: "candidate_idx self vertices = Inr []"
  shows "fst (get_interpolation tpxo_array constituent vertices self) =
         Inl (if length (filter (\<lambda>p. fst p < 0) vertices) = length vertices
                 \<or> length (filter (\<lambda>p. fst p < 0) vertices) = 1
              then IndexError_nearest else ValueError_broadcast)"
proof -
  let ?q = "shifted_x vertices"
  from candidate_idx_Inr_D(2) [OF idx] obtain xs ys where
    xy: "tpxo_x self = Inr xs" "tpxo_y self = Inr ys" by blast
  have q: "?q \<noteq> []" by (rule candidate_idx_Inr_D(1) [OF idx])
  have kn: "length ?q \<le> length vertices" by (rule length_shifted_x_le)
  have g: "fst (get_interpolation tpxo_array constituent vertices self)
        = griddata_nearest ([], []) [] (?q, map snd vertices)"
    by (simp add: get_interpolation_value assert_vertices_def c l layer_def xy idx)
  have n: "vertices \<noteq> []" using q by (auto simp: shifted_x_def)
  have "griddata_nearest ([], []) [] (?q, map snd vertices) =
         Inl (if length ?q = length vertices \<or> length ?q = 1
              then IndexError_nearest else ValueError_broadcast)"
  proof (cases "length ?q = length vertices")
    case True
    then show ?thesis using q by (simp add: griddata_nearest_def broadcast_arrays_def)
  next
    case False
    note ne = this
    show ?thesis
    proof (cases "length ?q = 1")
      case True
      then show ?thesis using ne n by (simp add: griddata_nearest_def broadcast_arrays_def)
    next
      case False
      have "length vertices \<noteq> 1" using ne False q kn
        by (cases ?q) auto
      then show ?thesis using ne False by (simp add: griddata_nearest_def broadcast_arrays_def)
    qed
  qed
  with g show ?thesis by (simp add: length_shifted_x)
qed

text \<open>
  C4, as amended. The module has no check for an empty candidate set and no
  \<open>InterpolationError\<close>. When the constituent is known and has a layer, and the padded
  box holds no grid point, the empty arrays go to \<open>griddata\<close> and the call fails with
  an error raised inside the libraries: the index error of scipy's nearest-neighbour
  interpolator, or numpy's broadcast error when the number of negative longitudes is
  neither N nor 1. (scipy from version 1.12 on returns NaN values instead of raising
  the index error; in neither case does the module raise an error of its own.)
\<close>

theorem empty_candidates_fail_inside_library:
  assumes "constituent_index constituent = Inr c"
    and "candidate_idx self vertices = Inr []"
  shows "(c < length (tpxo_ha self) \<longrightarrow>
            fst (get_amplitude self constituent vertices) =
            Inl (if length (filter (\<lambda>p. fst p < 0) vertices) = length vertices
                    \<or> length (filter (\<lambda>p. fst p < 0) vertices) = 1
                 then IndexError_nearest else ValueError_broadcast))
       \<and> (c < length (tpxo_hp self) \<longrightarrow>
            fst (get_phase self constituent vertices) =
            Inl (if length (filter (\<lambda>p. fst p < 0) vertices) = length vertices
                    \<or> length (filter (\<lambda>p. fst p < 0) vertices) = 1
                 then IndexError_nearest else ValueError_broadcast))"
  using get_interpolation_empty_candidates [OF assms(1) _ assms(2)]
  by (simp add: get_amplitude_eq get_phase_eq)

text \<open>
  C4 (counterexample). The point (-170, 5000) lies beyond any padding of the atlas: the
  candidate set is empty and the call ends in the index error raised inside scipy.
\<close>

theorem far_point_fails_inside_scipy:
  "candidate_idx atlas [(-170, 5000)] = Inr []
   \<and> fst (get_amplitude atlas ''M2'' [(-170, 5000)]) = Inl IndexError_nearest
   \<and> fst (get_phase atlas ''M2'' [(-170, 5000)]) = Inl IndexError_nearest"
  by code_simp

theorem empty_candidates_fail_inside_library_witness:
  "constituent_index ''M2'' = Inr 0
   \<and> candidate_idx atlas [(-170, 5000)] = Inr []
   \<and> 0 < length (tpxo_ha atlas) \<and> 0 < length (tpxo_hp atlas)
   \<and> fst (get_amplitude atlas ''M2'' [(-170, 5000)]) = Inl IndexError_nearest
   \<and> fst (get_phase atlas ''M2'' [(-170, 5000)]) = Inl IndexError_nearest"
proof -
  have h1: "constituent_index ''M2'' = Inr 0" by code_simp
  have h2: "candidate_idx atlas [(-170, 5000)] = Inr []" by code_simp
  have h3: "0 < length (tpxo_ha atlas)" "0 < length (tpxo_hp atlas)" by code_simp+
  show ?thesis
    using empty_candidates_fail_inside_library [OF h1 h2] h1 h2 h3 by simp
qed

end
